theory Spec2Isabelle
  imports Main
begin

section \<open>The deployment script \<open>deploy.py\<close>\<close>

text \<open>
  The script has one function, \<open>deploy_stack(stack_name, template_file)\<close>, and an entry
  point that calls it with two literals. The function reads a file inside a \<open>with\<close>
  block, builds a client of the cloud SDK, calls \<open>create_stack\<close>, obtains the waiter
  \<open>stack_create_complete\<close>, calls its \<open>wait\<close>, and prints one line.

  Everything the function does is an effect on something outside it, so the model is a
  state transformer: every step takes the state and returns the new state together with
  either the exception it raised (\<open>Inl\<close>) or its value (\<open>Inr\<close>). The state records the
  sequence of calls made (\<open>trace\<close>), the lines written to the console (\<open>stdout\<close>) and
  the file handles that are open (\<open>open_files\<close>). What the file system, the SDK and the
  remote service answer is not decided by the script: it is a parameter, the \<open>world\<close>.
\<close>

subsection \<open>Values and exceptions\<close>

text \<open>Python values that occur: \<open>None\<close>, strings, and the dictionary a service call returns.\<close>

datatype pyval = PyNone | PyStr string | PyDict "(string \<times> pyval) list"

text \<open>Why \<open>open\<close> or \<open>file.read\<close> raised.\<close>

datatype io_error = FileNotFound | PermissionDenied | IsADirectory | ReadFault

text \<open>Why the waiter gave up.\<close>

datatype wait_failure = TerminalFailure | MaxAttemptsExceeded

text \<open>
  The exceptions, by the call that raises them: \<open>open\<close> and \<open>read\<close> raise \<open>LocalIO\<close>,
  \<open>boto3.client\<close> raises \<open>SetupError\<close> (no region or credentials configured),
  a service call raises \<open>ClientError\<close> with the service's error code, \<open>get_waiter\<close>
  raises \<open>ValueError\<close> for a waiter name the client does not know, and \<open>wait\<close> raises
  \<open>WaiterError\<close>.
\<close>

datatype error =
    LocalIO io_error
  | SetupError string
  | ClientError string
  | ValueError string
  | WaiterError wait_failure

subsection \<open>The world outside the script\<close>

text \<open>What a path holds: \<open>open\<close> fails, or \<open>open\<close> succeeds and \<open>read\<close> fails, or the text.\<close>

datatype file_state = OpenFails io_error | ReadFails io_error | Contents string

text \<open>The status the remote service reports for a stack.\<close>

datatype stack_status = Pending | Succeeded | Failed

text \<open>
  \<open>files\<close>: the local file system.
  \<open>boto3_client\<close>: \<open>None\<close> when \<open>boto3.client(service)\<close> returns a client, \<open>Some msg\<close>
  when it raises.
  \<open>create_stack_api\<close>: the service's answer to a creation request with the given
  \<open>StackName\<close>, \<open>TemplateBody\<close> and \<open>Capabilities\<close>: an error code, or the response.
  \<open>waiter_models\<close>: the waiters the client knows, each with its maximal number of
  attempts.
  \<open>describe_stacks_api\<close>: the service's answer to the \<open>k\<close>-th status query for a stack
  name: an error code, or the status.
\<close>

record world =
  files :: "string \<Rightarrow> file_state"
  boto3_client :: "string \<Rightarrow> string option"
  create_stack_api :: "string \<Rightarrow> string \<Rightarrow> string list \<Rightarrow> string + pyval"
  waiter_models :: "string \<Rightarrow> nat option"
  describe_stacks_api :: "string \<Rightarrow> nat \<Rightarrow> string + stack_status"

subsection \<open>Effects\<close>

text \<open>
  One event for each call that leaves the function. \<open>EvCreateStack\<close> carries the three
  keyword arguments of the request; \<open>EvDescribeStacks name k\<close> is the \<open>k\<close>-th status query
  of a wait.
\<close>

datatype event =
    EvOpen string
  | EvRead string
  | EvClose string
  | EvClient string
  | EvCreateStack string string "string list"
  | EvGetWaiter string
  | EvWait string
  | EvDescribeStacks string nat
  | EvPrint string

record state =
  trace :: "event list"
  stdout :: "string list"
  open_files :: "string list"

type_synonym 'a step = "state \<Rightarrow> state \<times> (error + 'a)"

definition emit :: "event \<Rightarrow> state \<Rightarrow> state" where
  "emit ev s = s\<lparr>trace := trace s @ [ev]\<rparr>"

text \<open>
  Sequencing of two statements: when the first raises, the second does not run and the
  exception leaves with the state reached so far. The script has no \<open>try\<close>.
\<close>

definition and_then :: "'a step \<Rightarrow> ('a \<Rightarrow> 'b step) \<Rightarrow> 'b step" where
  "and_then m f s =
     (case m s of
        (s1, Inl e) \<Rightarrow> (s1, Inl e)
      | (s1, Inr x) \<Rightarrow> f x s1)"

subsection \<open>The file read\<close>

text \<open>
  \<^verbatim>\<open>
  with open(template_file, 'r') as file:
      template_body = file.read()
  \<close>
  \<open>open\<close> either raises or returns a handle, which is then open. The body of the \<open>with\<close>
  block reads the handle. Leaving the block closes the handle whether the body returned
  or raised, and an exception of the body is raised again after the close.
\<close>

definition open_file :: "world \<Rightarrow> string \<Rightarrow> string step" where
  "open_file w path s =
     (let s1 = emit (EvOpen path) s in
      case files w path of
        OpenFails e \<Rightarrow> (s1, Inl (LocalIO e))
      | _ \<Rightarrow> (s1\<lparr>open_files := path # open_files s1\<rparr>, Inr path))"

definition read_file :: "world \<Rightarrow> string \<Rightarrow> string step" where
  "read_file w h s =
     (let s1 = emit (EvRead h) s in
      case files w h of
        Contents body \<Rightarrow> (s1, Inr body)
      | ReadFails e \<Rightarrow> (s1, Inl (LocalIO e))
      | OpenFails e \<Rightarrow> (s1, Inl (LocalIO e)))"

definition close_file :: "string \<Rightarrow> state \<Rightarrow> state" where
  "close_file h s = (emit (EvClose h) s)\<lparr>open_files := remove1 h (open_files s)\<rparr>"

definition with_open :: "world \<Rightarrow> string \<Rightarrow> (string \<Rightarrow> 'a step) \<Rightarrow> 'a step" where
  "with_open w path body s =
     (case open_file w path s of
        (s1, Inl e) \<Rightarrow> (s1, Inl e)
      | (s1, Inr h) \<Rightarrow> (case body h s1 of (s2, r) \<Rightarrow> (close_file h s2, r)))"

definition read_template :: "world \<Rightarrow> string \<Rightarrow> string step" where
  "read_template w template_file = with_open w template_file (read_file w)"

subsection \<open>The calls into the SDK\<close>

text \<open>\<open>boto3.client('cloudformation')\<close>: local, no request is sent.\<close>

definition client_ctor :: "world \<Rightarrow> string \<Rightarrow> unit step" where
  "client_ctor w service s =
     (let s1 = emit (EvClient service) s in
      case boto3_client w service of
        Some msg \<Rightarrow> (s1, Inl (SetupError msg))
      | None \<Rightarrow> (s1, Inr ()))"

text \<open>\<open>client.create_stack(StackName=..., TemplateBody=..., Capabilities=...)\<close>.\<close>

definition create_stack :: "world \<Rightarrow> string \<Rightarrow> string \<Rightarrow> string list \<Rightarrow> pyval step" where
  "create_stack w name body caps s =
     (let s1 = emit (EvCreateStack name body caps) s in
      case create_stack_api w name body caps of
        Inl code \<Rightarrow> (s1, Inl (ClientError code))
      | Inr response \<Rightarrow> (s1, Inr response))"

text \<open>\<open>client.get_waiter(name)\<close>: local; the waiter is represented by its attempt limit.\<close>

definition get_waiter :: "world \<Rightarrow> string \<Rightarrow> nat step" where
  "get_waiter w name s =
     (let s1 = emit (EvGetWaiter name) s in
      case waiter_models w name of
        None \<Rightarrow> (s1, Inl (ValueError name))
      | Some limit \<Rightarrow> (s1, Inr limit))"

text \<open>
  Modelled from the spec: the polling loop of the SDK's waiter, which is library code and
  not part of the repository. The specification (component design, step 3) describes it:
  the status of the named stack is queried repeatedly until the service reports the
  success terminal state or a failure terminal state, or the attempts run out. A query
  comes first in every round, so a wait issues at least one. \<open>poll w name k n\<close> issues
  query number \<open>k\<close> and has \<open>n\<close> further attempts left.
\<close>

fun poll :: "world \<Rightarrow> string \<Rightarrow> nat \<Rightarrow> nat \<Rightarrow> pyval step" where
  "poll w name k 0 s =
     (let s1 = emit (EvDescribeStacks name k) s in
      case describe_stacks_api w name k of
        Inl code \<Rightarrow> (s1, Inl (ClientError code))
      | Inr Succeeded \<Rightarrow> (s1, Inr PyNone)
      | Inr Failed \<Rightarrow> (s1, Inl (WaiterError TerminalFailure))
      | Inr Pending \<Rightarrow> (s1, Inl (WaiterError MaxAttemptsExceeded)))"
| "poll w name k (Suc n) s =
     (let s1 = emit (EvDescribeStacks name k) s in
      case describe_stacks_api w name k of
        Inl code \<Rightarrow> (s1, Inl (ClientError code))
      | Inr Succeeded \<Rightarrow> (s1, Inr PyNone)
      | Inr Failed \<Rightarrow> (s1, Inl (WaiterError TerminalFailure))
      | Inr Pending \<Rightarrow> poll w name (Suc k) n s1)"

text \<open>\<open>waiter.wait(StackName=...)\<close>: one call, which runs the polling loop.\<close>

definition wait :: "world \<Rightarrow> nat \<Rightarrow> string \<Rightarrow> pyval step" where
  "wait w limit name s = poll w name 0 (limit - 1) (emit (EvWait name) s)"

text \<open>\<open>print(line)\<close>.\<close>

definition print :: "string \<Rightarrow> pyval step" where
  "print line s = ((emit (EvPrint line) s)\<lparr>stdout := stdout s @ [line]\<rparr>, Inr PyNone)"

subsection \<open>\<open>deploy_stack\<close> and the entry point\<close>

text \<open>The f-string \<open>f"Stack {stack_name} created successfully."\<close>.\<close>

definition success_line :: "string \<Rightarrow> string" where
  "success_line stack_name = ''Stack '' @ stack_name @ '' created successfully.''"

text \<open>
  \<^verbatim>\<open>
  def deploy_stack(stack_name, template_file):
      with open(template_file, 'r') as file:
          template_body = file.read()
      client = boto3.client('cloudformation')
      response = client.create_stack(
          StackName=stack_name,
          TemplateBody=template_body,
          Capabilities=['CAPABILITY_IAM'])
      waiter = client.get_waiter('stack_create_complete')
      waiter.wait(StackName=stack_name)
      print(f"Stack {stack_name} created successfully.")
  \<close>
  The function has no \<open>return\<close>: falling off its end returns \<open>None\<close>.
\<close>

definition deploy_stack :: "world \<Rightarrow> string \<Rightarrow> string \<Rightarrow> pyval step" where
  "deploy_stack w stack_name template_file =
     and_then (read_template w template_file) (\<lambda>template_body.
     and_then (client_ctor w ''cloudformation'') (\<lambda>client.
     and_then (create_stack w stack_name template_body [''CAPABILITY_IAM'']) (\<lambda>response.
     and_then (get_waiter w ''stack_create_complete'') (\<lambda>waiter.
     and_then (wait w waiter stack_name) (\<lambda>_.
     and_then (print (success_line stack_name)) (\<lambda>_.
     (\<lambda>s. (s, Inr PyNone))))))))"

text \<open>
  \<^verbatim>\<open>
  if __name__ == '__main__':
      deploy_stack('my-iac-stack', 'cloudformation/main.yaml')
  \<close>
  The module body: \<open>module_name\<close> is the value of \<open>__name__\<close> and \<open>argv\<close> the command
  line, which the script never reads. The two \<open>import\<close> statements at the top of the
  module (\<open>boto3\<close>, and \<open>time\<close>, which is not used) are not modelled.
\<close>

definition script :: "world \<Rightarrow> string \<Rightarrow> string list \<Rightarrow> pyval step" where
  "script w module_name argv =
     (if module_name = ''__main__''
      then deploy_stack w ''my-iac-stack'' ''cloudformation/main.yaml''
      else (\<lambda>s. (s, Inr PyNone)))"

subsection \<open>Observations on a trace\<close>

text \<open>The calls that reach the remote service.\<close>

fun is_remote :: "event \<Rightarrow> bool" where
  "is_remote (EvCreateStack _ _ _) = True"
| "is_remote (EvDescribeStacks _ _) = True"
| "is_remote _ = False"

fun is_create :: "event \<Rightarrow> bool" where
  "is_create (EvCreateStack _ _ _) = True"
| "is_create _ = False"

fun is_query :: "event \<Rightarrow> bool" where
  "is_query (EvDescribeStacks _ _) = True"
| "is_query _ = False"

fun is_print :: "event \<Rightarrow> bool" where
  "is_print (EvPrint _) = True"
| "is_print _ = False"

fun is_open :: "event \<Rightarrow> bool" where
  "is_open (EvOpen _) = True"
| "is_open _ = False"

fun is_read :: "event \<Rightarrow> bool" where
  "is_read (EvRead _) = True"
| "is_read _ = False"

fun is_client :: "event \<Rightarrow> bool" where
  "is_client (EvClient _) = True"
| "is_client _ = False"

fun is_wait :: "event \<Rightarrow> bool" where
  "is_wait (EvWait _) = True"
| "is_wait _ = False"

definition count :: "(event \<Rightarrow> bool) \<Rightarrow> event list \<Rightarrow> nat" where
  "count P es = length (filter P es)"

text \<open>The events a run added to the trace it started from.\<close>

definition added :: "state \<Rightarrow> state \<Rightarrow> event list" where
  "added s s' = drop (length (trace s)) (trace s')"

text \<open>The events of a run up to its wait call, and the status queries of a wait.\<close>

definition prologue :: "string \<Rightarrow> string \<Rightarrow> string \<Rightarrow> event list" where
  "prologue stack_name template_file body =
     [EvOpen template_file, EvRead template_file, EvClose template_file,
      EvClient ''cloudformation'',
      EvCreateStack stack_name body [''CAPABILITY_IAM''],
      EvGetWaiter ''stack_create_complete'',
      EvWait stack_name]"

definition queries :: "string \<Rightarrow> nat \<Rightarrow> nat \<Rightarrow> event list" where
  "queries name k m = map (EvDescribeStacks name) [k ..< k + m]"

text \<open>All events of a run that succeeds after \<open>m + 1\<close> status queries.\<close>

definition full_run :: "string \<Rightarrow> string \<Rightarrow> string \<Rightarrow> nat \<Rightarrow> event list" where
  "full_run stack_name template_file body m =
     prologue stack_name template_file body @ queries stack_name 0 (Suc m) @
     [EvPrint (success_line stack_name)]"

text \<open>The stack name a request is about, for the calls that carry one.\<close>

fun target :: "event \<Rightarrow> string option" where
  "target (EvCreateStack name _ _) = Some name"
| "target (EvWait name) = Some name"
| "target (EvDescribeStacks name _) = Some name"
| "target _ = None"

subsection \<open>A concrete world\<close>

text \<open>
  The end-to-end scenario of the specification: the template exists, the service accepts
  the request, and the status goes from pending to success. The variants below make one
  step fail.
\<close>

definition initial_state :: state where
  "initial_state = \<lparr>trace = [], stdout = [], open_files = []\<rparr>"

definition example_world :: world where
  "example_world =
     \<lparr>files = (\<lambda>path. if path = ''cloudformation/main.yaml''
                       then Contents ''Resources: {}'' else OpenFails FileNotFound),
      boto3_client = (\<lambda>service. None),
      create_stack_api = (\<lambda>name body caps.
         Inr (PyDict [(''StackId'', PyStr ''arn:aws:cloudformation:stack/my-iac-stack/1'')])),
      waiter_models = (\<lambda>name. if name = ''stack_create_complete'' then Some 120 else None),
      describe_stacks_api = (\<lambda>name k. if k = 0 then Inr Pending else Inr Succeeded)\<rparr>"

definition missing_file_world :: world where
  "missing_file_world = example_world\<lparr>files := (\<lambda>path. OpenFails FileNotFound)\<rparr>"

definition unreadable_file_world :: world where
  "unreadable_file_world = example_world\<lparr>files := (\<lambda>path. ReadFails ReadFault)\<rparr>"

definition duplicate_name_world :: world where
  "duplicate_name_world =
     example_world\<lparr>create_stack_api := (\<lambda>name body caps. Inl ''AlreadyExistsException'')\<rparr>"

definition rollback_world :: world where
  "rollback_world =
     example_world\<lparr>describe_stacks_api := (\<lambda>name k. if k = 0 then Inr Pending else Inr Failed)\<rparr>"

section \<open>What each step does to the state\<close>

text \<open>The \<open>with\<close> block, by what the path holds.\<close>

lemma read_template_unfold:
  "read_template w p s =
     (case files w p of
        OpenFails e \<Rightarrow> (s\<lparr>trace := trace s @ [EvOpen p]\<rparr>, Inl (LocalIO e))
      | ReadFails e \<Rightarrow> (s\<lparr>trace := trace s @ [EvOpen p, EvRead p, EvClose p]\<rparr>, Inl (LocalIO e))
      | Contents b \<Rightarrow> (s\<lparr>trace := trace s @ [EvOpen p, EvRead p, EvClose p]\<rparr>, Inr b))"
  by (simp add: read_template_def with_open_def open_file_def read_file_def close_file_def
      emit_def Let_def split: file_state.splits)

text \<open>
  The polling loop stops after \<open>m + 1\<close> queries, \<open>m\<close> of which saw \<open>Pending\<close>; it returns
  exactly when the last one saw \<open>Succeeded\<close>, and it touches nothing but the trace.
\<close>

lemma queries_Suc:
  "queries name k (Suc (Suc m)) = EvDescribeStacks name k # queries name (Suc k) (Suc m)"
  by (simp add: queries_def upt_rec)

lemma poll_result:
  "poll w name k n s = (s', r) \<Longrightarrow>
     \<exists>m. m \<le> n \<and> s' = s\<lparr>trace := trace s @ queries name k (Suc m)\<rparr> \<and>
         (\<forall>j<m. describe_stacks_api w name (k + j) = Inr Pending) \<and>
         (\<forall>v. r = Inr v \<longrightarrow> v = PyNone \<and> describe_stacks_api w name (k + m) = Inr Succeeded) \<and>
         (\<forall>e. r = Inl e \<longrightarrow> describe_stacks_api w name (k + m) \<noteq> Inr Succeeded)"
proof (induction n arbitrary: k s)
  case 0
  then show ?case
    by (auto simp: emit_def queries_def Let_def split: sum.splits stack_status.splits)
next
  case (Suc n)
  show ?case
  proof (cases "describe_stacks_api w name k = Inr Pending")
    case False
    with Suc.prems have "s' = s\<lparr>trace := trace s @ queries name k (Suc 0)\<rparr> \<and>
         (\<forall>v. r = Inr v \<longrightarrow> v = PyNone \<and> describe_stacks_api w name (k + 0) = Inr Succeeded) \<and>
         (\<forall>e. r = Inl e \<longrightarrow> describe_stacks_api w name (k + 0) \<noteq> Inr Succeeded)"
      by (auto simp: emit_def queries_def Let_def split: sum.splits stack_status.splits)
    then show ?thesis by (intro exI[of _ 0]) simp
  next
    case True
    let ?s1 = "emit (EvDescribeStacks name k) s"
    from True Suc.prems have "poll w name (Suc k) n ?s1 = (s', r)"
      by (simp add: Let_def)
    from Suc.IH[OF this] obtain m where m: "m \<le> n"
      "s' = ?s1\<lparr>trace := trace ?s1 @ queries name (Suc k) (Suc m)\<rparr>"
      "\<forall>j<m. describe_stacks_api w name (Suc k + j) = Inr Pending"
      "\<forall>v. r = Inr v \<longrightarrow> v = PyNone \<and> describe_stacks_api w name (Suc k + m) = Inr Succeeded"
      "\<forall>e. r = Inl e \<longrightarrow> describe_stacks_api w name (Suc k + m) \<noteq> Inr Succeeded"
      by blast
    have "\<forall>j<Suc m. describe_stacks_api w name (k + j) = Inr Pending"
      using True m(3) by (auto simp: less_Suc_eq_0_disj)
    with m queries_Suc[of name k m] show ?thesis
      by (intro exI[of _ "Suc m"]) (simp add: emit_def)
  qed
qed

text \<open>The loop asks the world for statuses only.\<close>

lemma poll_cong:
  "describe_stacks_api w' = describe_stacks_api w \<Longrightarrow> poll w' name k n s = poll w name k n s"
  by (induction n arbitrary: k s) (simp_all add: Let_def split: sum.splits stack_status.splits)

text \<open>The whole function, by what the world answers at each step.\<close>

lemma deploy_stack_unfold:
  "deploy_stack w n p s =
     (case files w p of
        OpenFails e \<Rightarrow> (s\<lparr>trace := trace s @ [EvOpen p]\<rparr>, Inl (LocalIO e))
      | ReadFails e \<Rightarrow> (s\<lparr>trace := trace s @ take 3 (prologue n p [])\<rparr>, Inl (LocalIO e))
      | Contents b \<Rightarrow>
         (case boto3_client w ''cloudformation'' of
            Some msg \<Rightarrow> (s\<lparr>trace := trace s @ take 4 (prologue n p b)\<rparr>, Inl (SetupError msg))
          | None \<Rightarrow>
             (case create_stack_api w n b [''CAPABILITY_IAM''] of
                Inl code \<Rightarrow> (s\<lparr>trace := trace s @ take 5 (prologue n p b)\<rparr>, Inl (ClientError code))
              | Inr response \<Rightarrow>
                 (case waiter_models w ''stack_create_complete'' of
                    None \<Rightarrow> (s\<lparr>trace := trace s @ take 6 (prologue n p b)\<rparr>,
                             Inl (ValueError ''stack_create_complete''))
                  | Some limit \<Rightarrow>
                     (case poll w n 0 (limit - 1) (s\<lparr>trace := trace s @ prologue n p b\<rparr>) of
                        (s5, Inl e) \<Rightarrow> (s5, Inl e)
                      | (s5, Inr v) \<Rightarrow>
                          (s5\<lparr>trace := trace s5 @ [EvPrint (success_line n)],
                              stdout := stdout s5 @ [success_line n]\<rparr>, Inr PyNone))))))"
  by (simp add: deploy_stack_def and_then_def read_template_unfold client_ctor_def
      create_stack_def get_waiter_def wait_def print_def emit_def prologue_def Let_def
      split: file_state.splits option.splits sum.splits prod.splits)

lemma length_prologue: "length (prologue n p b) = 7"
  by (simp add: prologue_def)

lemma length_queries: "length (queries n k m) = m"
  by (simp add: queries_def)

text \<open>
  Every run leaves a prefix of \<open>full_run\<close> on the trace: the whole of it when the function
  returns, a proper non-empty prefix without the print when it raises.
\<close>

lemma deploy_stack_shape:
  assumes "deploy_stack w n p s = (s', r)"
  shows "\<exists>b j m. (\<forall>b'. files w p = Contents b' \<longrightarrow> b = b') \<and>
           s' = s\<lparr>trace := trace s @ take j (full_run n p b m),
                  stdout := stdout s @ (case r of Inr _ \<Rightarrow> [success_line n] | Inl _ \<Rightarrow> [])\<rparr> \<and>
           (5 \<le> j \<longleftrightarrow> files w p = Contents b \<and> boto3_client w ''cloudformation'' = None) \<and>
           (case r of Inr v \<Rightarrow> v = PyNone \<and> j = 9 + m \<and> describe_stacks_api w n m = Inr Succeeded
            | Inl e \<Rightarrow> 1 \<le> j \<and> j \<le> 8 + m)"
proof (cases "files w p")
  case (OpenFails e)
  with assms have "s' = s\<lparr>trace := trace s @ take 1 (full_run n p [] 0), stdout := stdout s @ []\<rparr>
      \<and> r = Inl (LocalIO e)"
    by (auto simp: deploy_stack_unfold full_run_def prologue_def)
  with OpenFails show ?thesis
    by (intro exI[of _ "[]"] exI[of _ 1] exI[of _ 0]) simp
next
  case (ReadFails e)
  with assms have "s' = s\<lparr>trace := trace s @ take 3 (full_run n p [] 0), stdout := stdout s @ []\<rparr>
      \<and> r = Inl (LocalIO e)"
    by (auto simp: deploy_stack_unfold full_run_def prologue_def)
  with ReadFails show ?thesis
    by (intro exI[of _ "[]"] exI[of _ 3] exI[of _ 0]) simp
next
  case (Contents b)
  note c = this
  show ?thesis
  proof (cases "\<exists>limit resp. boto3_client w ''cloudformation'' = None \<and>
       create_stack_api w n b [''CAPABILITY_IAM''] = Inr resp \<and>
       waiter_models w ''stack_create_complete'' = Some limit")
    case False
    have tk: "\<And>j. j \<le> 7 \<Longrightarrow> take j (full_run n p b 0) = take j (prologue n p b)"
      by (simp add: full_run_def length_prologue)
    have "\<exists>j. 1 \<le> j \<and> j \<le> 8 \<and> (5 \<le> j \<longleftrightarrow> boto3_client w ''cloudformation'' = None) \<and>
        s' = s\<lparr>trace := trace s @ take j (full_run n p b 0), stdout := stdout s @ []\<rparr> \<and>
        (\<exists>e. r = Inl e)"
    proof (cases "boto3_client w ''cloudformation''")
      case (Some msg)
      with assms c show ?thesis
        by (intro exI[of _ 4]) (auto simp: deploy_stack_unfold tk)
    next
      case None
      note cl = this
      show ?thesis
      proof (cases "create_stack_api w n b [''CAPABILITY_IAM'']")
        case (Inl code)
        with assms c cl show ?thesis
          by (intro exI[of _ 5]) (auto simp: deploy_stack_unfold tk)
      next
        case (Inr resp)
        with False cl have "waiter_models w ''stack_create_complete'' = None"
          by (cases "waiter_models w ''stack_create_complete''") auto
        with assms c cl Inr show ?thesis
          by (intro exI[of _ 6]) (auto simp: deploy_stack_unfold tk)
      qed
    qed
    then obtain j e where "1 \<le> j" "j \<le> 8" "5 \<le> j \<longleftrightarrow> boto3_client w ''cloudformation'' = None"
      "s' = s\<lparr>trace := trace s @ take j (full_run n p b 0), stdout := stdout s @ []\<rparr>" "r = Inl e"
      by (elim exE conjE)
    with c show ?thesis
      by (intro exI[of _ b] exI[of _ j] exI[of _ 0]) simp
  next
    case True
    then obtain limit resp where t: "boto3_client w ''cloudformation'' = None"
       "create_stack_api w n b [''CAPABILITY_IAM''] = Inr resp"
       "waiter_models w ''stack_create_complete'' = Some limit"
      by blast
    obtain s5 r5 where p5: "poll w n 0 (limit - 1) (s\<lparr>trace := trace s @ prologue n p b\<rparr>) = (s5, r5)"
      by (cases "poll w n 0 (limit - 1) (s\<lparr>trace := trace s @ prologue n p b\<rparr>)") auto
    from poll_result[OF p5] obtain m where m:
      "s5 = s\<lparr>trace := trace s @ prologue n p b @ queries n 0 (Suc m)\<rparr>"
      "\<forall>v. r5 = Inr v \<longrightarrow> v = PyNone \<and> describe_stacks_api w n m = Inr Succeeded"
      by auto
    show ?thesis
    proof (cases r5)
      case (Inl e)
      with assms c t p5 m have
        "s' = s\<lparr>trace := trace s @ take (8 + m) (full_run n p b m), stdout := stdout s @ []\<rparr>
         \<and> r = Inl e"
        by (auto simp: deploy_stack_unfold full_run_def length_prologue length_queries)
      with c t show ?thesis
        by (intro exI[of _ b] exI[of _ "8 + m"] exI[of _ m]) simp
    next
      case (Inr v)
      with assms c t p5 m have
        "s' = s\<lparr>trace := trace s @ take (9 + m) (full_run n p b m),
                stdout := stdout s @ [success_line n]\<rparr> \<and> r = Inr PyNone
           \<and> describe_stacks_api w n m = Inr Succeeded"
        by (auto simp: deploy_stack_unfold full_run_def length_prologue length_queries)
      with c t show ?thesis
        by (intro exI[of _ b] exI[of _ "9 + m"] exI[of _ m]) simp
    qed
  qed
qed

section \<open>The concrete runs\<close>

lemma poll_unroll:
  "poll w name k (numeral v) s =
     (let s1 = emit (EvDescribeStacks name k) s in
      case describe_stacks_api w name k of
        Inl code \<Rightarrow> (s1, Inl (ClientError code))
      | Inr Succeeded \<Rightarrow> (s1, Inr PyNone)
      | Inr Failed \<Rightarrow> (s1, Inl (WaiterError TerminalFailure))
      | Inr Pending \<Rightarrow> poll w name (Suc k) (pred_numeral v) s1)"
  unfolding numeral_eq_Suc poll.simps by (rule refl)

lemmas run_defs = deploy_stack_def and_then_def read_template_def with_open_def open_file_def
  read_file_def close_file_def client_ctor_def create_stack_def get_waiter_def wait_def
  print_def emit_def success_line_def Let_def initial_state_def

lemma example_run:
  "deploy_stack example_world ''my-iac-stack'' ''cloudformation/main.yaml'' initial_state =
     (\<lparr>trace = [EvOpen ''cloudformation/main.yaml'', EvRead ''cloudformation/main.yaml'',
                EvClose ''cloudformation/main.yaml'', EvClient ''cloudformation'',
                EvCreateStack ''my-iac-stack'' ''Resources: {}'' [''CAPABILITY_IAM''],
                EvGetWaiter ''stack_create_complete'', EvWait ''my-iac-stack'',
                EvDescribeStacks ''my-iac-stack'' 0, EvDescribeStacks ''my-iac-stack'' 1,
                EvPrint ''Stack my-iac-stack created successfully.''],
       stdout = [''Stack my-iac-stack created successfully.''],
       open_files = []\<rparr>, Inr PyNone)"
  by (simp add: run_defs example_world_def poll_unroll)

lemma missing_file_run:
  "deploy_stack missing_file_world ''my-iac-stack'' ''cloudformation/main.yaml'' initial_state =
     (\<lparr>trace = [EvOpen ''cloudformation/main.yaml''], stdout = [], open_files = []\<rparr>,
      Inl (LocalIO FileNotFound))"
  by (simp add: run_defs example_world_def missing_file_world_def)

lemma unreadable_file_run:
  "deploy_stack unreadable_file_world ''my-iac-stack'' ''cloudformation/main.yaml'' initial_state =
     (\<lparr>trace = [EvOpen ''cloudformation/main.yaml'', EvRead ''cloudformation/main.yaml'',
                EvClose ''cloudformation/main.yaml''], stdout = [], open_files = []\<rparr>,
      Inl (LocalIO ReadFault))"
  by (simp add: run_defs example_world_def unreadable_file_world_def)

lemma duplicate_name_run:
  "deploy_stack duplicate_name_world ''my-iac-stack'' ''cloudformation/main.yaml'' initial_state =
     (\<lparr>trace = [EvOpen ''cloudformation/main.yaml'', EvRead ''cloudformation/main.yaml'',
                EvClose ''cloudformation/main.yaml'', EvClient ''cloudformation'',
                EvCreateStack ''my-iac-stack'' ''Resources: {}'' [''CAPABILITY_IAM'']],
       stdout = [], open_files = []\<rparr>,
      Inl (ClientError ''AlreadyExistsException''))"
  by (simp add: run_defs example_world_def duplicate_name_world_def)

lemma rollback_run:
  "deploy_stack rollback_world ''my-iac-stack'' ''cloudformation/main.yaml'' initial_state =
     (\<lparr>trace = [EvOpen ''cloudformation/main.yaml'', EvRead ''cloudformation/main.yaml'',
                EvClose ''cloudformation/main.yaml'', EvClient ''cloudformation'',
                EvCreateStack ''my-iac-stack'' ''Resources: {}'' [''CAPABILITY_IAM''],
                EvGetWaiter ''stack_create_complete'', EvWait ''my-iac-stack'',
                EvDescribeStacks ''my-iac-stack'' 0, EvDescribeStacks ''my-iac-stack'' 1],
       stdout = [], open_files = []\<rparr>,
      Inl (WaiterError TerminalFailure))"
  by (simp add: run_defs example_world_def rollback_world_def poll_unroll)

section \<open>Counting on the shape of a run\<close>

lemma queries_snoc: "queries n k (Suc m) = queries n k m @ [EvDescribeStacks n (k + m)]"
  by (simp add: queries_def)

lemma filter_queries:
  "filter is_query (queries n k m) = queries n k m"
  "filter is_remote (queries n k m) = queries n k m"
  "filter is_print (queries n k m) = []"
  "filter is_create (queries n k m) = []"
  "filter is_open (queries n k m) = []"
  "filter is_read (queries n k m) = []"
  "filter is_client (queries n k m) = []"
  "filter is_wait (queries n k m) = []"
  by (simp_all add: queries_def filter_map o_def)

lemma filter_take_Nil: "filter P xs = [] \<Longrightarrow> filter P (take j xs) = []"
  by (metis filter_empty_conv in_set_takeD)

lemma count_take_le: "count P (take j xs) \<le> count P xs"
proof -
  have "count P xs = count P (take j xs) + count P (drop j xs)"
    unfolding count_def by (metis append_take_drop_id filter_append length_append)
  then show ?thesis by simp
qed

lemma length_full_run: "length (full_run n p b m) = 9 + m"
  by (simp add: full_run_def length_prologue length_queries)

lemma distinct_queries: "distinct (queries n k m)"
  by (simp add: queries_def distinct_map inj_on_def)

lemma set_queries: "set (queries n k m) = EvDescribeStacks n ` {k ..< k + m}"
  by (simp add: queries_def)

lemma distinct_full_run: "distinct (full_run n p b m)"
  by (auto simp: full_run_def prologue_def distinct_queries set_queries)

text \<open>What a run adds to the trace, the console and the open handles.\<close>

lemma deploy_stack_added:
  assumes "deploy_stack w n p s = (s', r)"
  shows "\<exists>b j m. (\<forall>b'. files w p = Contents b' \<longrightarrow> b = b') \<and>
           added s s' = take j (full_run n p b m) \<and>
           stdout s' = stdout s @ (case r of Inr _ \<Rightarrow> [success_line n] | Inl _ \<Rightarrow> []) \<and>
           open_files s' = open_files s \<and>
           (5 \<le> j \<longleftrightarrow> files w p = Contents b \<and> boto3_client w ''cloudformation'' = None) \<and>
           (case r of Inr v \<Rightarrow> v = PyNone \<and> j = 9 + m \<and> describe_stacks_api w n m = Inr Succeeded
            | Inl e \<Rightarrow> 1 \<le> j \<and> j \<le> 8 + m)"
proof -
  from deploy_stack_shape[OF assms] obtain b j m where
    h: "\<forall>b'. files w p = Contents b' \<longrightarrow> b = b'"
       "s' = s\<lparr>trace := trace s @ take j (full_run n p b m),
                stdout := stdout s @ (case r of Inr _ \<Rightarrow> [success_line n] | Inl _ \<Rightarrow> [])\<rparr>"
       "5 \<le> j \<longleftrightarrow> files w p = Contents b \<and> boto3_client w ''cloudformation'' = None"
       "case r of Inr v \<Rightarrow> v = PyNone \<and> j = 9 + m \<and> describe_stacks_api w n m = Inr Succeeded
            | Inl e \<Rightarrow> 1 \<le> j \<and> j \<le> 8 + m"
    by (elim exE conjE)
  from h(2) have "added s s' = take j (full_run n p b m)"
    "stdout s' = stdout s @ (case r of Inr _ \<Rightarrow> [success_line n] | Inl _ \<Rightarrow> [])"
    "open_files s' = open_files s"
    by (simp_all add: added_def)
  with h(1,3,4) show ?thesis by blast
qed

lemma initial_state_simps:
  "trace initial_state = []" "stdout initial_state = []" "open_files initial_state = []"
  by (simp_all add: initial_state_def)

lemma filter_prologue:
  "filter is_create (prologue n p b) = [EvCreateStack n b [''CAPABILITY_IAM'']]"
  "filter is_open (prologue n p b) = [EvOpen p]"
  "filter is_read (prologue n p b) = [EvRead p]"
  "filter is_client (prologue n p b) = [EvClient ''cloudformation'']"
  "filter is_wait (prologue n p b) = [EvWait n]"
  "filter is_print (prologue n p b) = []"
  "filter is_query (prologue n p b) = []"
  by (simp_all add: prologue_def)

lemma count_full_run:
  "count is_open (full_run n p b m) = 1"
  "count is_read (full_run n p b m) = 1"
  "count is_client (full_run n p b m) = 1"
  "count is_create (full_run n p b m) = 1"
  "count is_wait (full_run n p b m) = 1"
  "count is_print (full_run n p b m) = 1"
  "count is_query (full_run n p b m) = Suc m"
  by (simp_all add: count_def full_run_def filter_prologue filter_queries length_queries
      del: upt_Suc)

lemma take_within: "j \<le> length xs \<Longrightarrow> take j (xs @ ys) = take j xs"
  by simp

lemma take_beyond: "length xs \<le> j \<Longrightarrow> take j (xs @ ys) = xs @ take (j - length xs) ys"
  by simp

lemma filter_create_take:
  "filter is_create (take j (full_run n p b m)) =
     (if 5 \<le> j then [EvCreateStack n b [''CAPABILITY_IAM'']] else [])"
proof -
  let ?front = "[EvOpen p, EvRead p, EvClose p, EvClient ''cloudformation'']"
  let ?c = "EvCreateStack n b [''CAPABILITY_IAM'']"
  let ?rest = "[EvGetWaiter ''stack_create_complete'', EvWait n] @ queries n 0 (Suc m) @
               [EvPrint (success_line n)]"
  have split1: "full_run n p b m = (?front @ [?c]) @ ?rest"
    by (simp add: full_run_def prologue_def)
  have split2: "full_run n p b m = ?front @ ([?c] @ ?rest)"
    by (simp add: full_run_def prologue_def)
  have rest: "filter is_create (take k ?rest) = []" for k
    by (rule filter_take_Nil) (simp add: filter_queries del: upt_Suc)
  have front: "filter is_create (take k ?front) = []" for k
    by (rule filter_take_Nil) simp
  show ?thesis
  proof (cases "5 \<le> j")
    case True
    have len: "length (?front @ [?c]) = 5" by simp
    from True have "length (?front @ [?c]) \<le> j" by simp
    from take_beyond[OF this, of ?rest]
    have "take j (full_run n p b m) = (?front @ [?c]) @ take (j - 5) ?rest"
      unfolding split1 len .
    then have "filter is_create (take j (full_run n p b m)) =
        [?c] @ filter is_create (take (j - 5) ?rest)"
      by simp
    with True rest[of "j - 5"] show ?thesis by simp
  next
    case False
    then have "j \<le> length ?front" by simp
    from take_within[OF this, of "[?c] @ ?rest"]
    have "take j (full_run n p b m) = take j ?front"
      unfolding split2 .
    with False front[of j] show ?thesis by simp
  qed
qed

lemma target_full_run:
  "ev \<in> set (full_run n p b m) \<Longrightarrow> target ev = None \<or> target ev = Some n"
  by (auto simp: full_run_def prologue_def set_queries)

lemma filter_open_take:
  "1 \<le> j \<Longrightarrow> filter is_open (take j (full_run n p b m)) = [EvOpen p]"
proof -
  assume "1 \<le> j"
  then obtain k where j: "j = Suc k" by (cases j) simp_all
  let ?rest = "[EvRead p, EvClose p, EvClient ''cloudformation'',
                EvCreateStack n b [''CAPABILITY_IAM''],
                EvGetWaiter ''stack_create_complete'', EvWait n] @ queries n 0 (Suc m) @
               [EvPrint (success_line n)]"
  have split: "full_run n p b m = EvOpen p # ?rest"
    by (simp add: full_run_def prologue_def)
  have "filter is_open (take k ?rest) = []"
    by (rule filter_take_Nil) (simp add: filter_queries del: upt_Suc)
  then show ?thesis
    unfolding split j by simp
qed

lemma wait_after_create:
  assumes "EvWait n' \<in> set (take j (full_run n p b m))"
  shows "EvCreateStack n b [''CAPABILITY_IAM''] \<in> set (take j (full_run n p b m))"
proof -
  let ?front = "[EvOpen p, EvRead p, EvClose p, EvClient ''cloudformation'',
                 EvCreateStack n b [''CAPABILITY_IAM''], EvGetWaiter ''stack_create_complete'']"
  let ?rest = "[EvWait n] @ queries n 0 (Suc m) @ [EvPrint (success_line n)]"
  have split: "full_run n p b m = ?front @ ?rest"
    by (simp add: full_run_def prologue_def)
  have len: "length ?front = 6" by simp
  show ?thesis
  proof (cases "6 \<le> j")
    case True
    then have "length ?front \<le> j" by simp
    from take_beyond[OF this, of ?rest]
    have "take j (full_run n p b m) = ?front @ take (j - 6) ?rest"
      unfolding split len .
    then show ?thesis by simp
  next
    case False
    then have "j \<le> length ?front" by simp
    from take_within[OF this, of ?rest]
    have "take j (full_run n p b m) = take j ?front"
      unfolding split .
    with assms have "EvWait n' \<in> set ?front"
      by (metis in_set_takeD)
    then show ?thesis by simp
  qed
qed

section \<open>The claims\<close>

text \<open>
  Claim C1. In every run of \<open>deploy_stack\<close> the success line is printed only after the
  wait has returned with success: when the function returns, the last two events of the
  run are a status query that saw the success terminal state and then the print, and
  nothing was printed before. When the function raises, nothing is printed. An exception
  of the file read, of the creation request or of the wait leaves \<open>deploy_stack\<close> as it
  is, with the state reached at that step.
\<close>

theorem success_line_only_after_successful_wait:
  assumes "deploy_stack w n p s = (s', r)"
  shows "(\<forall>v. r = Inr v \<longrightarrow>
            (\<exists>pre m. added s s' = pre @ [EvDescribeStacks n m, EvPrint (success_line n)] \<and>
                     filter is_print pre = [] \<and>
                     describe_stacks_api w n m = Inr Succeeded)) \<and>
         (\<forall>e. r = Inl e \<longrightarrow> filter is_print (added s s') = [] \<and> stdout s' = stdout s) \<and>
         (\<forall>e s1. read_template w p s = (s1, Inl e) \<longrightarrow> s' = s1 \<and> r = Inl e) \<and>
         (\<forall>b s1 c s2 e s3.
            read_template w p s = (s1, Inr b) \<and>
            client_ctor w ''cloudformation'' s1 = (s2, Inr c) \<and>
            create_stack w n b [''CAPABILITY_IAM''] s2 = (s3, Inl e)
            \<longrightarrow> s' = s3 \<and> r = Inl e) \<and>
         (\<forall>b s1 c s2 resp s3 limit s4 e s5.
            read_template w p s = (s1, Inr b) \<and>
            client_ctor w ''cloudformation'' s1 = (s2, Inr c) \<and>
            create_stack w n b [''CAPABILITY_IAM''] s2 = (s3, Inr resp) \<and>
            get_waiter w ''stack_create_complete'' s3 = (s4, Inr limit) \<and>
            wait w limit n s4 = (s5, Inl e)
            \<longrightarrow> s' = s5 \<and> r = Inl e)"
proof -
  from deploy_stack_added[OF assms] obtain b j m where
    a: "added s s' = take j (full_run n p b m)"
       "stdout s' = stdout s @ (case r of Inr _ \<Rightarrow> [success_line n] | Inl _ \<Rightarrow> [])"
       "case r of Inr v \<Rightarrow> v = PyNone \<and> j = 9 + m \<and> describe_stacks_api w n m = Inr Succeeded
            | Inl e \<Rightarrow> 1 \<le> j \<and> j \<le> 8 + m"
    by blast
  have ok: "\<exists>pre m. added s s' = pre @ [EvDescribeStacks n m, EvPrint (success_line n)] \<and>
                     filter is_print pre = [] \<and> describe_stacks_api w n m = Inr Succeeded"
    if "r = Inr v" for v
  proof -
    from that a(3) have j: "j = 9 + m" and d: "describe_stacks_api w n m = Inr Succeeded"
      by simp_all
    have "added s s' = (prologue n p b @ queries n 0 m) @ [EvDescribeStacks n m, EvPrint (success_line n)]"
      using a(1) j by (simp add: full_run_def length_prologue length_queries queries_snoc)
    moreover have "filter is_print (prologue n p b @ queries n 0 m) = []"
      by (simp add: filter_queries prologue_def)
    ultimately show ?thesis using d by blast
  qed
  have bad: "filter is_print (added s s') = [] \<and> stdout s' = stdout s" if "r = Inl e" for e
  proof -
    from that a(3) have "j \<le> 8 + m" by simp
    then have "added s s' = take j (prologue n p b @ queries n 0 (Suc m))"
      using a(1) by (simp add: full_run_def length_prologue length_queries)
    moreover have "filter is_print (prologue n p b @ queries n 0 (Suc m)) = []"
      by (simp add: filter_queries prologue_def)
    ultimately show ?thesis using that a(2) by (simp add: filter_take_Nil)
  qed
  have rd: "s' = s1 \<and> r = Inl e" if "read_template w p s = (s1, Inl e)" for e s1
    using assms that by (simp add: deploy_stack_def and_then_def)
  have cr: "s' = s3 \<and> r = Inl e"
    if "read_template w p s = (s1, Inr b)" "client_ctor w ''cloudformation'' s1 = (s2, Inr c)"
       "create_stack w n b [''CAPABILITY_IAM''] s2 = (s3, Inl e)" for b s1 c s2 e s3
    using assms that by (simp add: deploy_stack_def and_then_def)
  have wt: "s' = s5 \<and> r = Inl e"
    if "read_template w p s = (s1, Inr b)" "client_ctor w ''cloudformation'' s1 = (s2, Inr c)"
       "create_stack w n b [''CAPABILITY_IAM''] s2 = (s3, Inr resp)"
       "get_waiter w ''stack_create_complete'' s3 = (s4, Inr limit)"
       "wait w limit n s4 = (s5, Inl e)" for b s1 c s2 resp s3 limit s4 e s5
    using assms that by (simp add: deploy_stack_def and_then_def)
  from ok bad rd cr wt show ?thesis by blast
qed


theorem success_line_only_after_successful_wait_witness:
  "snd (deploy_stack example_world ''my-iac-stack'' ''cloudformation/main.yaml'' initial_state)
     = Inr PyNone \<and>
   added initial_state
     (fst (deploy_stack example_world ''my-iac-stack'' ''cloudformation/main.yaml'' initial_state))
     = prologue ''my-iac-stack'' ''cloudformation/main.yaml'' ''Resources: {}'' @
       [EvDescribeStacks ''my-iac-stack'' 0] @
       [EvDescribeStacks ''my-iac-stack'' 1, EvPrint ''Stack my-iac-stack created successfully.''] \<and>
   describe_stacks_api example_world ''my-iac-stack'' 1 = Inr Succeeded \<and>
   snd (deploy_stack rollback_world ''my-iac-stack'' ''cloudformation/main.yaml'' initial_state)
     = Inl (WaiterError TerminalFailure) \<and>
   stdout (fst (deploy_stack rollback_world ''my-iac-stack'' ''cloudformation/main.yaml''
     initial_state)) = stdout initial_state"
proof -
  have d: "describe_stacks_api example_world ''my-iac-stack'' 1 = Inr Succeeded"
    by (simp add: example_world_def)
  show ?thesis
    using success_line_only_after_successful_wait [OF example_run]
      success_line_only_after_successful_wait [OF rollback_run]
    by (simp add: d example_run rollback_run added_def initial_state_simps prologue_def)
qed

text \<open>
  Claim C2. When the template cannot be read, because \<open>open\<close> fails or because \<open>read\<close>
  fails, \<open>deploy_stack\<close> raises that local I/O error, and the run consists of file events
  only: no client is built, no creation request is sent and no remote call of any kind is
  made, so no stack is created.
\<close>

theorem unreadable_template_makes_no_remote_call:
  assumes "files w p = OpenFails e \<or> files w p = ReadFails e"
    and "deploy_stack w n p s = (s', r)"
  shows "r = Inl (LocalIO e) \<and>
         set (added s s') \<subseteq> {EvOpen p, EvRead p, EvClose p} \<and>
         filter is_client (added s s') = [] \<and>
         filter is_create (added s s') = [] \<and>
         filter is_remote (added s s') = [] \<and>
         stdout s' = stdout s"
  using assms by (auto simp: deploy_stack_unfold added_def prologue_def)

theorem unreadable_template_makes_no_remote_call_witness:
  "files missing_file_world ''cloudformation/main.yaml'' = OpenFails FileNotFound \<and>
   snd (deploy_stack missing_file_world ''my-iac-stack'' ''cloudformation/main.yaml'' initial_state)
     = Inl (LocalIO FileNotFound) \<and>
   filter is_remote (added initial_state
     (fst (deploy_stack missing_file_world ''my-iac-stack'' ''cloudformation/main.yaml''
        initial_state))) = [] \<and>
   files unreadable_file_world ''cloudformation/main.yaml'' = ReadFails ReadFault \<and>
   snd (deploy_stack unreadable_file_world ''my-iac-stack'' ''cloudformation/main.yaml''
     initial_state) = Inl (LocalIO ReadFault) \<and>
   filter is_remote (added initial_state
     (fst (deploy_stack unreadable_file_world ''my-iac-stack'' ''cloudformation/main.yaml''
        initial_state))) = []"
proof -
  have m: "files missing_file_world ''cloudformation/main.yaml'' = OpenFails FileNotFound"
    by (simp add: missing_file_world_def)
  have u: "files unreadable_file_world ''cloudformation/main.yaml'' = ReadFails ReadFault"
    by (simp add: unreadable_file_world_def)
  show ?thesis
    using unreadable_template_makes_no_remote_call [OF disjI1 [OF m] missing_file_run]
      unreadable_template_makes_no_remote_call [OF disjI2 [OF u] unreadable_file_run]
    by (simp add: m u missing_file_run unreadable_file_run added_def initial_state_simps)
qed

text \<open>
  Claim C3. When the service rejects the creation request (a duplicate name, for
  instance), \<open>deploy_stack\<close> raises the service's error at once: the creation request is
  the last event of the run, the wait is never entered and no status query is issued.
\<close>

theorem rejected_creation_never_waits:
  assumes "files w p = Contents b"
    and "boto3_client w ''cloudformation'' = None"
    and "create_stack_api w n b [''CAPABILITY_IAM''] = Inl code"
    and "deploy_stack w n p s = (s', r)"
  shows "r = Inl (ClientError code) \<and>
         added s s' = [EvOpen p, EvRead p, EvClose p, EvClient ''cloudformation'',
                       EvCreateStack n b [''CAPABILITY_IAM'']] \<and>
         filter is_wait (added s s') = [] \<and>
         filter is_query (added s s') = [] \<and>
         stdout s' = stdout s"
  using assms by (auto simp: deploy_stack_unfold added_def prologue_def)

theorem rejected_creation_never_waits_witness:
  "files duplicate_name_world ''cloudformation/main.yaml'' = Contents ''Resources: {}'' \<and>
   boto3_client duplicate_name_world ''cloudformation'' = None \<and>
   create_stack_api duplicate_name_world ''my-iac-stack'' ''Resources: {}'' [''CAPABILITY_IAM'']
     = Inl ''AlreadyExistsException'' \<and>
   snd (deploy_stack duplicate_name_world ''my-iac-stack'' ''cloudformation/main.yaml''
     initial_state) = Inl (ClientError ''AlreadyExistsException'') \<and>
   filter is_query (added initial_state
     (fst (deploy_stack duplicate_name_world ''my-iac-stack'' ''cloudformation/main.yaml''
        initial_state))) = []"
proof -
  have f: "files duplicate_name_world ''cloudformation/main.yaml'' = Contents ''Resources: {}''"
    by (simp add: duplicate_name_world_def example_world_def)
  have c: "boto3_client duplicate_name_world ''cloudformation'' = None"
    by (simp add: duplicate_name_world_def example_world_def)
  have a: "create_stack_api duplicate_name_world ''my-iac-stack'' ''Resources: {}''
     [''CAPABILITY_IAM''] = Inl ''AlreadyExistsException''"
    by (simp add: duplicate_name_world_def)
  show ?thesis
    using rejected_creation_never_waits [OF f c a duplicate_name_run]
    by (simp add: f c a duplicate_name_run added_def initial_state_simps)
qed

text \<open>
  Claim C4. For every stack name and readable template, the creation request that
  \<open>deploy_stack\<close> submits carries exactly the given stack name, the text of the template
  file as it was read, and the capability list \<open>['CAPABILITY_IAM']\<close>, whatever the
  inputs are. There is one such request as soon as the client could be built (and none
  otherwise), and no other creation request reaches the service: the run depends on the
  service's answer to this request only.
\<close>

theorem creation_request_carries_name_body_and_capability:
  assumes "files w p = Contents b"
    and "deploy_stack w n p s = (s', r)"
  shows "filter is_create (added s s') =
           (if boto3_client w ''cloudformation'' = None
            then [EvCreateStack n b [''CAPABILITY_IAM'']] else []) \<and>
         (\<forall>api'. api' n b [''CAPABILITY_IAM''] = create_stack_api w n b [''CAPABILITY_IAM'']
            \<longrightarrow> deploy_stack (w\<lparr>create_stack_api := api'\<rparr>) n p s = (s', r))"
proof -
  from deploy_stack_added[OF assms(2)] obtain b0 j m where
    a: "\<forall>b'. files w p = Contents b' \<longrightarrow> b0 = b'"
       "added s s' = take j (full_run n p b0 m)"
       "5 \<le> j \<longleftrightarrow> files w p = Contents b0 \<and> boto3_client w ''cloudformation'' = None"
    by blast
  from a(1) assms(1) have "b0 = b" by simp
  with a assms(1) have first: "filter is_create (added s s') =
           (if boto3_client w ''cloudformation'' = None
            then [EvCreateStack n b [''CAPABILITY_IAM'']] else [])"
    by (simp add: filter_create_take)
  have second: "deploy_stack (w\<lparr>create_stack_api := api'\<rparr>) n p s = (s', r)"
    if "api' n b [''CAPABILITY_IAM''] = create_stack_api w n b [''CAPABILITY_IAM'']" for api'
  proof -
    have "poll (w\<lparr>create_stack_api := api'\<rparr>) = poll w"
      by (intro ext poll_cong) simp
    with that assms show ?thesis
      by (simp add: deploy_stack_unfold split: option.splits sum.splits)
  qed
  from first second show ?thesis by blast
qed

theorem creation_request_carries_name_body_and_capability_witness:
  "files example_world ''cloudformation/main.yaml'' = Contents ''Resources: {}'' \<and>
   boto3_client example_world ''cloudformation'' = None \<and>
   filter is_create (added initial_state
     (fst (deploy_stack example_world ''my-iac-stack'' ''cloudformation/main.yaml''
        initial_state))) =
     [EvCreateStack ''my-iac-stack'' ''Resources: {}'' [''CAPABILITY_IAM'']]"
proof -
  have f: "files example_world ''cloudformation/main.yaml'' = Contents ''Resources: {}''"
    by (simp add: example_world_def)
  have c: "boto3_client example_world ''cloudformation'' = None"
    by (simp add: example_world_def)
  show ?thesis
    using creation_request_carries_name_body_and_capability [OF f example_run]
    by (simp add: f c example_run added_def initial_state_simps)
qed

text \<open>
  Claim C5. A run that succeeds has exactly these effects: the template file is opened,
  read and closed once, one creation request is sent, one wait is made, during which
  the status is queried once or more, and one line is printed; the events of the run are
  exactly \<open>full_run\<close>. \<open>deploy_stack\<close> retries nothing: in every run, failed or not, no
  event occurs twice and each step is taken at most once.
\<close>

theorem side_effects_of_a_run:
  assumes "deploy_stack w n p s = (s', r)"
  shows "distinct (added s s') \<and>
         count is_open (added s s') \<le> 1 \<and> count is_read (added s s') \<le> 1 \<and>
         count is_client (added s s') \<le> 1 \<and> count is_create (added s s') \<le> 1 \<and>
         count is_wait (added s s') \<le> 1 \<and> count is_print (added s s') \<le> 1 \<and>
         (\<forall>v. r = Inr v \<longrightarrow>
            (\<exists>b m. files w p = Contents b \<and> added s s' = full_run n p b m) \<and>
            count is_open (added s s') = 1 \<and> count is_read (added s s') = 1 \<and>
            count is_create (added s s') = 1 \<and> count is_wait (added s s') = 1 \<and>
            1 \<le> count is_query (added s s') \<and> count is_print (added s s') = 1 \<and>
            stdout s' = stdout s @ [success_line n] \<and> open_files s' = open_files s)"
proof -
  from deploy_stack_added[OF assms] obtain b j m where
    a: "added s s' = take j (full_run n p b m)"
       "stdout s' = stdout s @ (case r of Inr _ \<Rightarrow> [success_line n] | Inl _ \<Rightarrow> [])"
       "open_files s' = open_files s"
       "5 \<le> j \<longleftrightarrow> files w p = Contents b \<and> boto3_client w ''cloudformation'' = None"
       "case r of Inr v \<Rightarrow> v = PyNone \<and> j = 9 + m \<and> describe_stacks_api w n m = Inr Succeeded
            | Inl e \<Rightarrow> 1 \<le> j \<and> j \<le> 8 + m"
    by blast
  have d: "distinct (added s s')"
    unfolding a(1) by (rule distinct_take) (rule distinct_full_run)
  have le: "count P (added s s') \<le> count P (full_run n p b m)" for P
    unfolding a(1) by (rule count_take_le)
  have once: "count is_open (added s s') \<le> 1" "count is_read (added s s') \<le> 1"
    "count is_client (added s s') \<le> 1" "count is_create (added s s') \<le> 1"
    "count is_wait (added s s') \<le> 1" "count is_print (added s s') \<le> 1"
    using le[of is_open] le[of is_read] le[of is_client] le[of is_create] le[of is_wait]
      le[of is_print]
    by (simp_all add: count_full_run)
  have ok: "(\<exists>b m. files w p = Contents b \<and> added s s' = full_run n p b m) \<and>
            count is_open (added s s') = 1 \<and> count is_read (added s s') = 1 \<and>
            count is_create (added s s') = 1 \<and> count is_wait (added s s') = 1 \<and>
            1 \<le> count is_query (added s s') \<and> count is_print (added s s') = 1 \<and>
            stdout s' = stdout s @ [success_line n] \<and> open_files s' = open_files s"
    if "r = Inr v" for v
  proof -
    from that a(5) have j: "j = 9 + m" by simp
    with a(1) have full: "added s s' = full_run n p b m"
      by (simp add: length_full_run)
    from j a(4) have "files w p = Contents b" by simp
    with full that a(2,3) show ?thesis
      by (auto simp: count_full_run)
  qed
  from d once ok show ?thesis by blast
qed

theorem side_effects_of_a_run_witness:
  "snd (deploy_stack example_world ''my-iac-stack'' ''cloudformation/main.yaml'' initial_state)
     = Inr PyNone \<and>
   added initial_state
     (fst (deploy_stack example_world ''my-iac-stack'' ''cloudformation/main.yaml'' initial_state))
     = full_run ''my-iac-stack'' ''cloudformation/main.yaml'' ''Resources: {}'' 1 \<and>
   count is_query (added initial_state
     (fst (deploy_stack example_world ''my-iac-stack'' ''cloudformation/main.yaml'' initial_state)))
     = 2 \<and>
   count is_create (added initial_state
     (fst (deploy_stack example_world ''my-iac-stack'' ''cloudformation/main.yaml'' initial_state)))
     = 1"
  using side_effects_of_a_run [OF example_run]
  by (simp add: example_run added_def initial_state_simps full_run_def prologue_def
      queries_def success_line_def count_def)

text \<open>
  Claim C6. A run that succeeds writes exactly one line to the console, and the line is
  \<open>Stack {name} created successfully.\<close> with the given stack name in place of
  \<open>{name}\<close>: the output ends with this one new line, the run has this one print event,
  and the stack name stands in the line right after \<open>Stack \<close>.
\<close>

theorem success_prints_exactly_one_line:
  assumes "deploy_stack w n p s = (s', Inr v)"
  shows "stdout s' = stdout s @ [''Stack '' @ n @ '' created successfully.''] \<and>
         filter is_print (added s s') = [EvPrint (''Stack '' @ n @ '' created successfully.'')] \<and>
         take (length n) (drop 6 (last (stdout s'))) = n"
proof -
  from deploy_stack_added[OF assms] obtain b j m where
    a: "added s s' = take j (full_run n p b m)"
       "stdout s' = stdout s @ [success_line n]"
       "j = 9 + m"
    by auto
  from a(1,3) have "added s s' = full_run n p b m"
    by (simp add: length_full_run)
  then have "filter is_print (added s s') = [EvPrint (success_line n)]"
    by (simp add: full_run_def filter_prologue filter_queries del: upt_Suc)
  with a(2) show ?thesis
    by (simp add: success_line_def)
qed

theorem success_prints_exactly_one_line_witness:
  "snd (deploy_stack example_world ''my-iac-stack'' ''cloudformation/main.yaml'' initial_state)
     = Inr PyNone \<and>
   stdout (fst (deploy_stack example_world ''my-iac-stack'' ''cloudformation/main.yaml''
     initial_state)) = [''Stack my-iac-stack created successfully.'']"
  using success_prints_exactly_one_line [OF example_run]
  by (simp add: example_run initial_state_simps)

text \<open>
  Claim C7. In every run the stack name passed to the creation request and the stack name
  passed to the wait (and so to every status query) are the \<open>stack_name\<close> argument
  itself: every call of the run that carries a stack name carries this one, and a wait
  on it is always preceded by the creation request for it.
\<close>

theorem create_and_wait_use_the_same_name:
  assumes "deploy_stack w n p s = (s', r)"
  shows "(\<forall>ev \<in> set (added s s'). target ev = None \<or> target ev = Some n) \<and>
         (\<forall>n'. EvWait n' \<in> set (added s s') \<longrightarrow>
            n' = n \<and> (\<exists>b. EvCreateStack n b [''CAPABILITY_IAM''] \<in> set (added s s')))"
proof -
  from deploy_stack_added[OF assms] obtain b j m where
    a: "added s s' = take j (full_run n p b m)"
    by blast
  have t: "target ev = None \<or> target ev = Some n" if "ev \<in> set (added s s')" for ev
    using that unfolding a by (intro target_full_run[of ev n p b m]) (rule in_set_takeD)
  have c: "n' = n \<and> (\<exists>b. EvCreateStack n b [''CAPABILITY_IAM''] \<in> set (added s s'))"
    if "EvWait n' \<in> set (added s s')" for n'
  proof -
    from t[OF that] have "n' = n" by simp
    moreover from that have "EvCreateStack n b [''CAPABILITY_IAM''] \<in> set (added s s')"
      unfolding a by (rule wait_after_create)
    ultimately show ?thesis by blast
  qed
  from t c show ?thesis by blast
qed

theorem create_and_wait_use_the_same_name_witness:
  "EvWait ''my-iac-stack'' \<in> set (added initial_state
     (fst (deploy_stack example_world ''my-iac-stack'' ''cloudformation/main.yaml''
        initial_state))) \<and>
   EvCreateStack ''my-iac-stack'' ''Resources: {}'' [''CAPABILITY_IAM''] \<in> set (added initial_state
     (fst (deploy_stack example_world ''my-iac-stack'' ''cloudformation/main.yaml''
        initial_state)))"
  using create_and_wait_use_the_same_name [OF example_run]
  by (simp add: example_run added_def initial_state_simps)

text \<open>
  Claim C8. The handle that \<open>deploy_stack\<close> opens on the template file is released when
  the read step is left, both when the read returns the text and when it raises: the
  handle is open after \<open>open\<close>, the step ends with the close, and the open handles
  after the step are those before it. The same holds for any body of the \<open>with\<close> block
  that leaves the open handles alone, and for the whole of \<open>deploy_stack\<close>.
\<close>

theorem template_handle_is_released:
  assumes "read_template w p s = (s1, r)"
  shows "open_files s1 = open_files s \<and>
         (\<forall>e. files w p = OpenFails e \<longrightarrow> r = Inl (LocalIO e) \<and> added s s1 = [EvOpen p]) \<and>
         (\<forall>e. files w p = ReadFails e \<longrightarrow>
            r = Inl (LocalIO e) \<and> added s s1 = [EvOpen p, EvRead p, EvClose p] \<and>
            open_files (fst (open_file w p s)) = p # open_files s) \<and>
         (\<forall>b. files w p = Contents b \<longrightarrow>
            r = Inr b \<and> added s s1 = [EvOpen p, EvRead p, EvClose p] \<and>
            open_files (fst (open_file w p s)) = p # open_files s) \<and>
         (\<forall>n s' r'. deploy_stack w n p s = (s', r') \<longrightarrow> open_files s' = open_files s) \<and>
         (\<forall>body :: string \<Rightarrow> string step.
            (\<forall>h t. open_files (fst (body h t)) = open_files t) \<longrightarrow>
            open_files (fst (with_open w p body s)) = open_files s)"
proof -
  have g: "open_files (fst (with_open w p body s)) = open_files s"
    if "\<forall>h t. open_files (fst (body h t)) = open_files t" for body :: "string \<Rightarrow> string step"
  proof (cases "files w p")
    case (OpenFails e)
    then show ?thesis
      by (simp add: with_open_def open_file_def emit_def Let_def)
  next
    case (ReadFails e)
    let ?s1 = "(emit (EvOpen p) s)\<lparr>open_files := p # open_files s\<rparr>"
    obtain s2 r2 where b: "body p ?s1 = (s2, r2)"
      by (cases "body p ?s1") auto
    from that have "open_files (fst (body p ?s1)) = open_files ?s1" by blast
    with b have "open_files s2 = p # open_files s" by simp
    with ReadFails b show ?thesis
      by (simp add: with_open_def open_file_def close_file_def emit_def Let_def)
  next
    case (Contents b)
    let ?s1 = "(emit (EvOpen p) s)\<lparr>open_files := p # open_files s\<rparr>"
    obtain s2 r2 where b: "body p ?s1 = (s2, r2)"
      by (cases "body p ?s1") auto
    from that have "open_files (fst (body p ?s1)) = open_files ?s1" by blast
    with b have "open_files s2 = p # open_files s" by simp
    with Contents b show ?thesis
      by (simp add: with_open_def open_file_def close_file_def emit_def Let_def)
  qed
  have d: "open_files s' = open_files s" if "deploy_stack w n p s = (s', r')" for n s' r'
    using deploy_stack_added[OF that] by blast
  from assms have "open_files s1 = open_files s \<and>
         (\<forall>e. files w p = OpenFails e \<longrightarrow> r = Inl (LocalIO e) \<and> added s s1 = [EvOpen p]) \<and>
         (\<forall>e. files w p = ReadFails e \<longrightarrow>
            r = Inl (LocalIO e) \<and> added s s1 = [EvOpen p, EvRead p, EvClose p] \<and>
            open_files (fst (open_file w p s)) = p # open_files s) \<and>
         (\<forall>b. files w p = Contents b \<longrightarrow>
            r = Inr b \<and> added s s1 = [EvOpen p, EvRead p, EvClose p] \<and>
            open_files (fst (open_file w p s)) = p # open_files s)"
    by (auto simp: read_template_unfold added_def open_file_def emit_def Let_def
        split: file_state.splits)
  with d g show ?thesis by blast
qed

theorem template_handle_is_released_witness:
  "files unreadable_file_world ''cloudformation/main.yaml'' = ReadFails ReadFault \<and>
   open_files (fst (open_file unreadable_file_world ''cloudformation/main.yaml'' initial_state))
     = [''cloudformation/main.yaml''] \<and>
   snd (read_template unreadable_file_world ''cloudformation/main.yaml'' initial_state)
     = Inl (LocalIO ReadFault) \<and>
   open_files (fst (read_template unreadable_file_world ''cloudformation/main.yaml''
     initial_state)) = [] \<and>
   files example_world ''cloudformation/main.yaml'' = Contents ''Resources: {}'' \<and>
   snd (read_template example_world ''cloudformation/main.yaml'' initial_state)
     = Inr ''Resources: {}'' \<and>
   open_files (fst (read_template example_world ''cloudformation/main.yaml''
     initial_state)) = []"
proof -
  have u: "files unreadable_file_world ''cloudformation/main.yaml'' = ReadFails ReadFault"
    by (simp add: unreadable_file_world_def)
  have f: "files example_world ''cloudformation/main.yaml'' = Contents ''Resources: {}''"
    by (simp add: example_world_def)
  show ?thesis
    using template_handle_is_released [OF surjective_pairing,
        of unreadable_file_world "''cloudformation/main.yaml''" initial_state]
      template_handle_is_released [OF surjective_pairing,
        of example_world "''cloudformation/main.yaml''" initial_state]
    by (simp add: u f initial_state_simps)
qed

text \<open>
  Claim C9. Run as the entry point (\<open>__name__\<close> is \<open>__main__\<close>), the script is one
  call of \<open>deploy_stack\<close> with the stack name \<open>my-iac-stack\<close> and the template path
  \<open>cloudformation/main.yaml\<close>, whatever the command line holds: the file is opened once,
  at that path, and every call that carries a stack name carries that name.
\<close>

theorem entry_point_calls_deploy_stack_once_with_constants:
  "script w ''__main__'' argv s =
     deploy_stack w ''my-iac-stack'' ''cloudformation/main.yaml'' s \<and>
   (\<forall>s' r. script w ''__main__'' argv s = (s', r) \<longrightarrow>
      filter is_open (added s s') = [EvOpen ''cloudformation/main.yaml''] \<and>
      (\<forall>ev \<in> set (added s s'). target ev = None \<or> target ev = Some ''my-iac-stack''))"
proof -
  have eq: "script w ''__main__'' argv s =
     deploy_stack w ''my-iac-stack'' ''cloudformation/main.yaml'' s"
    by (simp add: script_def)
  have once: "filter is_open (added s s') = [EvOpen ''cloudformation/main.yaml''] \<and>
      (\<forall>ev \<in> set (added s s'). target ev = None \<or> target ev = Some ''my-iac-stack'')"
    if "script w ''__main__'' argv s = (s', r)" for s' r
  proof -
    from that eq have run: "deploy_stack w ''my-iac-stack'' ''cloudformation/main.yaml'' s = (s', r)"
      by simp
    from deploy_stack_added[OF run] obtain b j m where
      a: "added s s' = take j (full_run ''my-iac-stack'' ''cloudformation/main.yaml'' b m)"
         "case r of Inr v \<Rightarrow> v = PyNone \<and> j = 9 + m \<and>
              describe_stacks_api w ''my-iac-stack'' m = Inr Succeeded
          | Inl e \<Rightarrow> 1 \<le> j \<and> j \<le> 8 + m"
      by blast
    from a(2) have "1 \<le> j" by (cases r) simp_all
    from filter_open_take[OF this] a(1)
    have "filter is_open (added s s') = [EvOpen ''cloudformation/main.yaml'']" by simp
    moreover have "target ev = None \<or> target ev = Some ''my-iac-stack''"
      if "ev \<in> set (added s s')" for ev
      using that unfolding a(1)
      by (intro target_full_run[of ev _ "''cloudformation/main.yaml''" b m]) (rule in_set_takeD)
    ultimately show ?thesis by blast
  qed
  from eq once show ?thesis by blast
qed

theorem entry_point_calls_deploy_stack_once_with_constants_witness:
  "snd (script example_world ''__main__'' [''deploy.py'', ''--stack'', ''other''] initial_state)
     = Inr PyNone \<and>
   filter is_open (added initial_state
     (fst (script example_world ''__main__'' [''deploy.py'', ''--stack'', ''other'']
        initial_state))) = [EvOpen ''cloudformation/main.yaml''] \<and>
   stdout (fst (script example_world ''__main__'' [''deploy.py'', ''--stack'', ''other'']
        initial_state)) = [''Stack my-iac-stack created successfully.'']"
proof -
  have s: "script example_world ''__main__'' [''deploy.py'', ''--stack'', ''other''] initial_state
    = deploy_stack example_world ''my-iac-stack'' ''cloudformation/main.yaml'' initial_state"
    using entry_point_calls_deploy_stack_once_with_constants
      [of example_world "[''deploy.py'', ''--stack'', ''other'']" initial_state]
    by (rule conjunct1)
  show ?thesis
    by (simp add: s example_run added_def initial_state_simps)
qed

text \<open>
  Claim C10. \<open>deploy_stack\<close> returns \<open>None\<close> when it succeeds and makes no use of the
  response to the creation request: replacing the response of the service by any other
  value changes nothing in the run, neither the calls made, nor the line printed, nor the
  result.
\<close>

theorem creation_response_is_discarded:
  "deploy_stack
     (w\<lparr>create_stack_api := \<lambda>name body caps.
          map_sum (\<lambda>code. code) (f name body caps) (create_stack_api w name body caps)\<rparr>)
     n p s = deploy_stack w n p s \<and>
   (\<forall>s' v. deploy_stack w n p s = (s', Inr v) \<longrightarrow> v = PyNone)"
proof -
  let ?w = "w\<lparr>create_stack_api := \<lambda>name body caps.
          map_sum (\<lambda>code. code) (f name body caps) (create_stack_api w name body caps)\<rparr>"
  have "poll ?w = poll w"
    by (intro ext poll_cong) simp
  then have same: "deploy_stack ?w n p s = deploy_stack w n p s"
    by (simp add: deploy_stack_unfold split: file_state.splits option.splits sum.splits)
  have none: "v = PyNone" if "deploy_stack w n p s = (s', Inr v)" for s' v
    using deploy_stack_added[OF that] by auto
  from same none show ?thesis by blast
qed

theorem creation_response_is_discarded_witness:
  "deploy_stack (example_world\<lparr>create_stack_api := \<lambda>name body caps. Inr PyNone\<rparr>)
     ''my-iac-stack'' ''cloudformation/main.yaml'' initial_state =
   deploy_stack example_world ''my-iac-stack'' ''cloudformation/main.yaml'' initial_state \<and>
   snd (deploy_stack example_world ''my-iac-stack'' ''cloudformation/main.yaml'' initial_state)
     = Inr PyNone"
proof -
  have w: "example_world\<lparr>create_stack_api := \<lambda>name body caps.
          map_sum (\<lambda>code. code) ((\<lambda>name body caps response. PyNone) name body caps)
            (create_stack_api example_world name body caps)\<rparr>
       = example_world\<lparr>create_stack_api := \<lambda>name body caps. Inr PyNone\<rparr>"
    by (simp add: example_world_def)
  show ?thesis
    using creation_response_is_discarded
      [where w = example_world and f = "\<lambda>name body caps response. PyNone"
        and n = "''my-iac-stack''" and p = "''cloudformation/main.yaml''"
        and s = initial_state]
    by (simp add: w example_run)
qed

end
